theory Spec2Isabelle
  imports Complex_Main "HOL-Library.Word"
begin

unbundle bit_operations_syntax

section \<open>Values as the reflection layer presents them\<close>

text \<open>
  The comparator of \<^verbatim>\<open>equivalence\<close> never looks at Go values directly: it asks
  \<^verbatim>\<open>reflect\<close> for their kind, their length, their elements. The model is a datatype of
  reflected values together with a heap for everything reached through an address
  (pointees, slice backing stores, map entries), so that cyclic graphs are ordinary inputs.

  Modelling boundary, fixed once: the platform is amd64 (\<^verbatim>\<open>int\<close> and \<^verbatim>\<open>uint\<close> are 64 bits
  wide, a float converted to an integer out of range gives the bit pattern 0x8000000000000000);
  struct fields are exported; named types are told apart for strings, channels, functions,
  pointers, slices, maps and structs (they carry a type name), not for booleans and numbers.
\<close>

type_synonym int64 = "64 word"
type_synonym uint64 = "64 word"
type_synonym addr = nat

datatype intKind = KInt | KInt8 | KInt16 | KInt32 | KInt64
datatype uintKind = KUint | KUint8 | KUint16 | KUint32 | KUint64
datatype floatKind = KFloat32 | KFloat64
datatype complexKind = KComplex64 | KComplex128

text \<open>
  A \<^verbatim>\<open>float64\<close>: the finite values are kept as the rational they denote (\<open>FFin 0\<close> is
  \<^verbatim>\<open>+0\<close>), so that \<^verbatim>\<open>==\<close> is equality of numbers.
\<close>

datatype float64 = FNaN | FPosInf | FNegInf | FNegZero | FFin rat

text \<open>A \<^verbatim>\<open>big.Float\<close>: its precision in bits, its sign, and its magnitude.\<close>

datatype bigmag = MInf | MFin rat

datatype val =
    Invalid
  | VBool bool
  | VInt intKind int64
  | VUint uintKind uint64
  | VFloat floatKind float64
  | VComplex complexKind float64 float64
  | VString string string
  | VArray string "val list"
  | VSlice string addr nat
  | VMap string string addr
  | VStruct string "val list"
  | VBigInt int
  | VBigFloat nat bool bigmag
  | VPtr string addr
  | VIface val
  | VUintptr uint64
  | VUnsafePointer addr
  | VChan string nat
  | VFunc string

text \<open>
  \<open>VInt k w\<close> holds what \<^verbatim>\<open>Value.Int()\<close> returns (the value sign-extended to 64 bits),
  \<open>VUint k w\<close> what \<^verbatim>\<open>Value.Uint()\<close> returns, \<open>VFloat k f\<close> what \<^verbatim>\<open>Value.Float()\<close> returns.
  \<open>VString t s\<close>, \<open>VArray t xs\<close>, \<open>VSlice t a n\<close>, \<open>VMap t kt a\<close>, \<open>VStruct t fs\<close>, \<open>VPtr t a\<close>, \<open>VChan t n\<close> and
  \<open>VFunc t\<close> carry the name \<open>t\<close> of their type; a map also carries the name \<open>kt\<close> of its
  key type, a slice its length, a channel the number of queued elements. Address 0 is nil.
  \<open>VIface v\<close> is a value of kind Interface (an element, field or map value of interface
  type) holding \<open>v\<close>; \<open>VIface Invalid\<close> is the nil interface. \<open>VBigInt\<close> and \<open>VBigFloat\<close> are
  the structs \<^verbatim>\<open>big.Int\<close> and \<^verbatim>\<open>big.Float\<close>.
\<close>

text \<open>
  The heap: what a pointer points to, the elements behind a slice, the entries of a map.
  The entries are listed in the order in which the iteration of this run visits them (Go
  leaves the order open; the list fixes it as part of the input).
\<close>

datatype hobj =
    HVal val
  | HElems "val list"
  | HMap "(val \<times> val) list"

type_synonym heap = "addr \<rightharpoonup> hobj"

text \<open>
  What a step of the comparison yields: a value, a panic of the runtime or of
  \<^verbatim>\<open>reflect\<close>, or nothing (\<open>Stuck\<close>: the fuel of the model ran out, or an address is
  not in the heap, or the step reads the unexported fields of a big number; no claim is
  made about such runs).
\<close>

datatype 'a outcome = Ret 'a | Panic | Stuck

section \<open>Floating point\<close>

definition pow2 :: "int \<Rightarrow> rat" where
  "pow2 e = (if 0 \<le> e then 2 ^ nat e else 1 / 2 ^ nat (- e))"

definition pow10 :: "int \<Rightarrow> rat" where
  "pow10 e = (if 0 \<le> e then 10 ^ nat e else 1 / 10 ^ nat (- e))"

text \<open>\<open>floor_log b x\<close> is the integer \<open>e\<close> with \<open>b ^ e \<le> x < b ^ (e + 1)\<close>, for \<open>x > 0\<close>.\<close>

definition bpow :: "int \<Rightarrow> int \<Rightarrow> rat" where
  "bpow b e = (if 0 \<le> e then of_int b ^ nat e else 1 / of_int b ^ nat (- e))"

text \<open>The number of digits of \<open>n\<close> in base \<open>b\<close>.\<close>

function ndigits :: "int \<Rightarrow> int \<Rightarrow> int" where
  "ndigits b n = (if 0 < n \<and> 1 < b then ndigits b (n div b) + 1 else 0)"
  by pat_completeness auto
termination
proof (relation "measure (\<lambda>(b, n). nat n)")
  show "wf (measure (\<lambda>(b, n). nat n))" by simp
next
  fix b n :: int
  assume "0 < n \<and> 1 < b"
  then have "n div b < n" by (simp add: int_div_less_self)
  with \<open>0 < n \<and> 1 < b\<close> show "((b, n div b), (b, n)) \<in> measure (\<lambda>(b, n). nat n)"
    by simp
qed

declare ndigits.simps [simp del]

definition floor_log :: "int \<Rightarrow> rat \<Rightarrow> int" where
  "floor_log b x =
     (let (n, d) = quotient_of x;
          e0 = ndigits b n - ndigits b d
      in if bpow b e0 \<le> x then e0 else e0 - 1)"

definition round_half_even :: "rat \<Rightarrow> int" where
  "round_half_even x =
     (let f = \<lfloor>x\<rfloor>; d = x - of_int f
      in if d < 1 / 2 then f else if 1 / 2 < d then f + 1 else if even f then f else f + 1)"

text \<open>
  Rounding of a rational to the nearest binary float with \<open>p\<close> bits of precision and
  exponents between \<open>emin\<close> and \<open>emax\<close>, ties to even, gradual underflow.
\<close>

definition round_bin :: "nat \<Rightarrow> int \<Rightarrow> int \<Rightarrow> rat \<Rightarrow> float64" where
  "round_bin p emin emax x =
     (if x = 0 then FFin 0
      else let a = \<bar>x\<bar>;
               e = max (floor_log 2 a) emin;
               u = pow2 (e - int p + 1);
               r = of_int (round_half_even (a / u)) * u
           in if pow2 (emax + 1) \<le> r then (if x < 0 then FNegInf else FPosInf)
              else if r = 0 then (if x < 0 then FNegZero else FFin 0)
              else FFin (if x < 0 then - r else r))"

definition round64 :: "rat \<Rightarrow> float64" where
  "round64 = round_bin 53 (- 1022) 1023"

definition round32 :: "rat \<Rightarrow> float64" where
  "round32 = round_bin 24 (- 126) 127"

text \<open>\<^verbatim>\<open>float32(f)\<close>, read back as a \<^verbatim>\<open>float64\<close>.\<close>

definition to_float32 :: "float64 \<Rightarrow> float64" where
  "to_float32 f = (case f of FFin r \<Rightarrow> round32 r | _ \<Rightarrow> f)"

text \<open>\<^verbatim>\<open>a == b\<close> on floats: NaN equals nothing, the two zeros are equal.\<close>

definition fnorm :: "float64 \<Rightarrow> float64" where
  "fnorm f = (if f = FNegZero then FFin 0 else f)"

definition feq :: "float64 \<Rightarrow> float64 \<Rightarrow> bool" where
  "feq a b = (a \<noteq> FNaN \<and> b \<noteq> FNaN \<and> fnorm a = fnorm b)"

definition isNaN :: "float64 \<Rightarrow> bool" where
  "isNaN f = (f = FNaN)"

text \<open>\<^verbatim>\<open>f < 0\<close>.\<close>

definition flt0 :: "float64 \<Rightarrow> bool" where
  "flt0 f = (case f of FNegInf \<Rightarrow> True | FFin r \<Rightarrow> r < 0 | _ \<Rightarrow> False)"

definition trunc :: "rat \<Rightarrow> int" where
  "trunc r = (if 0 \<le> r then \<lfloor>r\<rfloor> else \<lceil>r\<rceil>)"

text \<open>
  \<^verbatim>\<open>int64(f)\<close>: truncation towards zero; out of range (and for NaN) the amd64 conversion
  instruction gives the "integer indefinite" value.
\<close>

definition f2i64 :: "float64 \<Rightarrow> int64" where
  "f2i64 f =
     (case f of
        FFin r \<Rightarrow> (let t = trunc r
                   in if - (2 ^ 63) \<le> t \<and> t < 2 ^ 63 then word_of_int t else 0x8000000000000000)
      | FNegZero \<Rightarrow> 0
      | _ \<Rightarrow> 0x8000000000000000)"

text \<open>
  \<^verbatim>\<open>uint64(f)\<close> as the amd64 compiler emits it: below \<open>2^63\<close> the signed conversion, from
  \<open>2^63\<close> on the signed conversion of \<open>f - 2^63\<close> with the top bit flipped.
\<close>

definition f2u64 :: "float64 \<Rightarrow> uint64" where
  "f2u64 f =
     (case f of
        FFin r \<Rightarrow> (if r < 2 ^ 63 then f2i64 f else f2i64 (FFin (r - 2 ^ 63)) XOR 0x8000000000000000)
      | FNegZero \<Rightarrow> 0
      | FNegInf \<Rightarrow> 0x8000000000000000
      | _ \<Rightarrow> 0)"

text \<open>\<^verbatim>\<open>float64(i)\<close> for a signed and for an unsigned 64-bit integer.\<close>

definition i2f :: "int64 \<Rightarrow> float64" where
  "i2f a = round64 (of_int (sint a))"

definition u2f :: "uint64 \<Rightarrow> float64" where
  "u2f a = round64 (of_int (uint a))"

section \<open>Decimal text\<close>

definition digit_char :: "int \<Rightarrow> char" where
  "digit_char d = ''0123456789'' ! nat (d mod 10)"

text \<open>The decimal digits of a natural number, given as an integer.\<close>

function decimal :: "int \<Rightarrow> string" where
  "decimal n = (if n < 10 then [digit_char n] else decimal (n div 10) @ [digit_char (n mod 10)])"
  by pat_completeness auto
termination
  by (relation "measure nat") auto

declare decimal.simps [simp del]

text \<open>\<^verbatim>\<open>strconv.FormatInt(v, 10)\<close>, \<^verbatim>\<open>strconv.FormatUint(v, 10)\<close> and \<^verbatim>\<open>big.Int.String()\<close>.\<close>

definition int_string :: "int \<Rightarrow> string" where
  "int_string i = (if i < 0 then CHR ''-'' # decimal (- i) else decimal i)"

definition FormatInt :: "int64 \<Rightarrow> string" where
  "FormatInt a = int_string (sint a)"

definition FormatUint :: "uint64 \<Rightarrow> string" where
  "FormatUint a = int_string (uint a)"

definition bigInt_String :: "int \<Rightarrow> string" where
  "bigInt_String n = int_string n"

text \<open>
  A decimal number as the formatters of \<^verbatim>\<open>strconv\<close> and \<^verbatim>\<open>math/big\<close> hold it: the digits
  \<open>d\<^sub>1 d\<^sub>2 \<dots> d\<^sub>n\<close> without trailing zeros and the position \<open>dp\<close> of the decimal point, for
  the value \<open>0.d\<^sub>1 d\<^sub>2 \<dots> d\<^sub>n \<times> 10 ^ dp\<close>. Zero has no digits.
\<close>

record decimalSlice =
  digs :: string
  dp :: int

definition strip_zeros :: "string \<Rightarrow> string" where
  "strip_zeros s = rev (dropWhile (\<lambda>c. c = CHR ''0'') (rev s))"

text \<open>
  The \<open>n\<close>-digit integer \<open>c\<close> standing for \<open>c \<times> 10 ^ (e - n + 1)\<close>, where \<open>10 ^ e\<close> is the
  weight of the leading digit of the number it approximates; \<open>c\<close> may have \<open>n + 1\<close> digits
  after a carry.
\<close>

definition mk_decimal :: "nat \<Rightarrow> int \<Rightarrow> int \<Rightarrow> decimalSlice" where
  "mk_decimal n e c =
     \<lparr>digs = strip_zeros (decimal c), dp = e + 1 + (int (length (decimal c)) - int n)\<rparr>"

definition dec_value :: "nat \<Rightarrow> int \<Rightarrow> int \<Rightarrow> rat" where
  "dec_value n e c = of_int c * pow10 (e - int n + 1)"

text \<open>\<^verbatim>\<open>decimal.round(n)\<close> of \<^verbatim>\<open>math/big\<close>: the exact value to \<open>n\<close> digits, ties to even.\<close>

definition dec_round :: "nat \<Rightarrow> rat \<Rightarrow> decimalSlice" where
  "dec_round n a =
     (if a = 0 then \<lparr>digs = [], dp = 0\<rparr>
      else let e = floor_log 10 a
           in mk_decimal n e (round_half_even (a / pow10 (e - int n + 1))))"

text \<open>
  The shortest digits that read back as the same \<^verbatim>\<open>float64\<close> (the \<open>-1\<close> precision of
  \<^verbatim>\<open>strconv.FormatFloat\<close>): at the first length at which the value cut off, or the value
  cut off and bumped by one, reads back, take it; the nearer one if both do.
\<close>

fun shortest_from :: "nat \<Rightarrow> nat \<Rightarrow> int \<Rightarrow> rat \<Rightarrow> decimalSlice" where
  "shortest_from 0 n e a = dec_round n a"
| "shortest_from (Suc k) n e a =
     (let q = a / pow10 (e - int n + 1);
          lo = \<lfloor>q\<rfloor>;
          hi = (if of_int lo = q then lo else lo + 1);
          okdown = (round64 (dec_value n e lo) = FFin a);
          okup = (round64 (dec_value n e hi) = FFin a)
      in if okdown \<and> okup then mk_decimal n e (round_half_even q)
         else if okdown then mk_decimal n e lo
         else if okup then mk_decimal n e hi
         else shortest_from k (n + 1) e a)"

definition shortest_decimal :: "rat \<Rightarrow> decimalSlice" where
  "shortest_decimal a =
     (if a = 0 then \<lparr>digs = [], dp = 0\<rparr> else shortest_from 16 1 (floor_log 10 a) a)"

text \<open>The layouts \<^verbatim>\<open>%e\<close> and \<^verbatim>\<open>%f\<close> with \<open>prec\<close> digits after the point.\<close>

definition digit_at :: "decimalSlice \<Rightarrow> int \<Rightarrow> char" where
  "digit_at d i = (if 0 \<le> i \<and> i < int (length (digs d)) then digs d ! nat i else CHR ''0'')"

definition fmtE :: "decimalSlice \<Rightarrow> nat \<Rightarrow> string" where
  "fmtE d prec =
     (let ex = (if digs d = [] then 0 else dp d - 1);
          frac = map (\<lambda>i. digit_at d (int i)) [1 ..< prec + 1];
          es = decimal \<bar>ex\<bar>
      in [digit_at d 0] @ (if 0 < prec then CHR ''.'' # frac else [])
         @ [CHR ''e'', if ex < 0 then CHR ''-'' else CHR ''+'']
         @ (if length es < 2 then CHR ''0'' # es else es))"

definition fmtF :: "decimalSlice \<Rightarrow> nat \<Rightarrow> string" where
  "fmtF d prec =
     (let ip = (if 0 < dp d then map (\<lambda>i. digit_at d (int i)) [0 ..< nat (dp d)] else ''0'');
          frac = map (\<lambda>i. digit_at d (dp d + int i)) [0 ..< prec]
      in ip @ (if 0 < prec then CHR ''.'' # frac else []))"

text \<open>
  The layout \<^verbatim>\<open>%g\<close>: \<open>prec\<close> is the precision asked for, \<open>shortest\<close> says that it was
  \<open>-1\<close>. The exponent form is taken when the exponent is below \<open>-4\<close> or not below the
  precision (6 for the shortest form).
\<close>

definition fmtG :: "bool \<Rightarrow> decimalSlice \<Rightarrow> nat \<Rightarrow> string" where
  "fmtG shortest d prec =
     (let nd = length (digs d);
          eprec0 = (if nd < prec \<and> dp d \<le> int nd then nd else prec);
          eprec = (if shortest then 6 else eprec0);
          ex = dp d - 1
      in if ex < - 4 \<or> int eprec \<le> ex
         then fmtE d ((if nd < prec then nd else prec) - 1)
         else fmtF d (nat (int (if dp d < int prec then nd else prec) - dp d)))"

text \<open>\<^verbatim>\<open>strconv.FormatFloat(v, 'g', -1, 64)\<close>.\<close>

definition floatToString :: "float64 \<Rightarrow> string" where
  "floatToString v =
     (case v of
        FNaN \<Rightarrow> ''NaN''
      | FPosInf \<Rightarrow> ''+Inf''
      | FNegInf \<Rightarrow> ''-Inf''
      | FNegZero \<Rightarrow> ''-0''
      | FFin r \<Rightarrow>
          (let d = shortest_decimal \<bar>r\<bar>
           in (if r < 0 then ''-'' else []) @ fmtG True d (length (digs d))))"

definition bitsToDecimalDigitsTable :: "nat list" where
  "bitsToDecimalDigitsTable = [0, 1, 1, 1, 1, 2, 2, 2, 3, 3]"

definition bitsToDecimalDigits :: "nat \<Rightarrow> nat" where
  "bitsToDecimalDigits bitCount = (bitCount div 10) * 3 + bitsToDecimalDigitsTable ! (bitCount mod 10)"

text \<open>\<^verbatim>\<open>big.Float.Text('g', n)\<close>; a precision of 0 is read as 1.\<close>

definition bigFloat_Text :: "bool \<Rightarrow> bigmag \<Rightarrow> nat \<Rightarrow> string" where
  "bigFloat_Text neg m n =
     (case m of
        MInf \<Rightarrow> (if neg then ''-Inf'' else ''+Inf'')
      | MFin a \<Rightarrow>
          (let p = (if n = 0 then 1 else n)
           in (if neg then ''-'' else []) @ fmtG False (dec_round p \<bar>a\<bar>) p))"

definition bigFloatToString :: "nat \<Rightarrow> bool \<Rightarrow> bigmag \<Rightarrow> string" where
  "bigFloatToString prec neg m = bigFloat_Text neg m (bitsToDecimalDigits prec)"

section \<open>Numeric comparison\<close>

text \<open>
  \<^verbatim>\<open>fmt.Sprintf("NOT NUMERIC: %v", v)\<close>: the rendering of \<open>v\<close> is not modelled beyond a
  placeholder; the prefix is what keeps the text apart from every number.
\<close>

definition numericToString :: "val \<Rightarrow> string" where
  "numericToString v =
     (case v of
        VInt k i \<Rightarrow> FormatInt i
      | VUint k u \<Rightarrow> FormatUint u
      | VFloat k f \<Rightarrow> floatToString f
      | VBigInt n \<Rightarrow> bigInt_String n
      | VBigFloat p s m \<Rightarrow> bigFloatToString p s m
      | _ \<Rightarrow> ''NOT NUMERIC: ?'')"

definition isEquivalentToBigFloat :: "nat \<Rightarrow> bool \<Rightarrow> bigmag \<Rightarrow> val \<Rightarrow> bool" where
  "isEquivalentToBigFloat p s m b = (bigFloatToString p s m = numericToString b)"

definition isEquivalentToBigInt :: "int \<Rightarrow> val \<Rightarrow> bool" where
  "isEquivalentToBigInt a b = (bigInt_String a = numericToString b)"

definition isEquivalentToInt :: "int64 \<Rightarrow> val \<Rightarrow> bool" where
  "isEquivalentToInt a b =
     (case b of
        VInt k bi \<Rightarrow> bi = a
      | VUint k ub \<Rightarrow> (if ub AND 0x1000000000000000 \<noteq> 0 then False else a = ub)
      | VFloat k fb \<Rightarrow> a = f2i64 fb \<and> feq (i2f a) fb
      | VBigInt bi \<Rightarrow> FormatInt a = bigInt_String bi
      | VBigFloat p s m \<Rightarrow> FormatInt a = bigFloatToString p s m
      | _ \<Rightarrow> False)"

definition isEquivalentToUint :: "uint64 \<Rightarrow> val \<Rightarrow> bool" where
  "isEquivalentToUint a b =
     (case b of
        VInt k ib \<Rightarrow> (if ib <s 0 then False else a = ib)
      | VUint k ub \<Rightarrow> a = ub
      | VFloat k fb \<Rightarrow> (if flt0 fb then False else a = f2u64 fb \<and> feq (u2f a) fb)
      | VBigInt bi \<Rightarrow> FormatUint a = bigInt_String bi
      | VBigFloat p s m \<Rightarrow> FormatUint a = bigFloatToString p s m
      | _ \<Rightarrow> False)"

definition isEquivalentToFloat :: "float64 \<Rightarrow> val \<Rightarrow> bool" where
  "isEquivalentToFloat a b =
     (case b of
        VInt k ib \<Rightarrow> feq a (i2f ib) \<and> f2i64 a = ib
      | VUint k ub \<Rightarrow> feq a (u2f ub) \<and> f2u64 a = ub
      | VFloat k fb \<Rightarrow> (if isNaN a \<and> isNaN fb then True else feq a fb)
      | VBigInt bi \<Rightarrow> floatToString a = bigInt_String bi
      | VBigFloat p s m \<Rightarrow> floatToString a = bigFloatToString p s m
      | _ \<Rightarrow> False)"

section \<open>Reflection primitives\<close>

text \<open>
  The accessors of \<^verbatim>\<open>reflect.Value\<close> that the comparator calls, with their panics: an
  accessor called on a value of the wrong kind panics.
\<close>

definition intKindName :: "intKind \<Rightarrow> string" where
  "intKindName k = (case k of KInt \<Rightarrow> ''int'' | KInt8 \<Rightarrow> ''int8'' | KInt16 \<Rightarrow> ''int16''
     | KInt32 \<Rightarrow> ''int32'' | KInt64 \<Rightarrow> ''int64'')"

definition uintKindName :: "uintKind \<Rightarrow> string" where
  "uintKindName k = (case k of KUint \<Rightarrow> ''uint'' | KUint8 \<Rightarrow> ''uint8'' | KUint16 \<Rightarrow> ''uint16''
     | KUint32 \<Rightarrow> ''uint32'' | KUint64 \<Rightarrow> ''uint64'')"

text \<open>\<^verbatim>\<open>v.Type()\<close>, as the name of the type.\<close>

definition typeName :: "val \<Rightarrow> string" where
  "typeName v =
     (case v of
        Invalid \<Rightarrow> []
      | VBool b \<Rightarrow> ''bool''
      | VInt k i \<Rightarrow> intKindName k
      | VUint k u \<Rightarrow> uintKindName k
      | VFloat k f \<Rightarrow> (case k of KFloat32 \<Rightarrow> ''float32'' | KFloat64 \<Rightarrow> ''float64'')
      | VComplex k re im \<Rightarrow> (case k of KComplex64 \<Rightarrow> ''complex64'' | KComplex128 \<Rightarrow> ''complex128'')
      | VString t s \<Rightarrow> t
      | VArray t xs \<Rightarrow> t
      | VSlice t p n \<Rightarrow> t
      | VMap t kt p \<Rightarrow> t
      | VStruct t fs \<Rightarrow> t
      | VBigInt n \<Rightarrow> ''big.Int''
      | VBigFloat p s m \<Rightarrow> ''big.Float''
      | VPtr t p \<Rightarrow> t
      | VIface x \<Rightarrow> ''interface {}''
      | VUintptr u \<Rightarrow> ''uintptr''
      | VUnsafePointer p \<Rightarrow> ''unsafe.Pointer''
      | VChan t n \<Rightarrow> t
      | VFunc t \<Rightarrow> t)"

text \<open>\<^verbatim>\<open>v.Bool()\<close> and \<^verbatim>\<open>v.Complex()\<close>.\<close>

definition valBool :: "val \<Rightarrow> bool outcome" where
  "valBool v = (case v of VBool b \<Rightarrow> Ret b | _ \<Rightarrow> Panic)"

definition valComplex :: "val \<Rightarrow> (float64 \<times> float64) outcome" where
  "valComplex v = (case v of VComplex k re im \<Rightarrow> Ret (re, im) | _ \<Rightarrow> Panic)"

text \<open>The entries of a map value; a nil map has none.\<close>

definition mapEntries :: "heap \<Rightarrow> addr \<Rightarrow> (val \<times> val) list outcome" where
  "mapEntries h p =
     (if p = 0 then Ret []
      else case h p of Some (HMap es) \<Rightarrow> Ret es | _ \<Rightarrow> Stuck)"

text \<open>\<^verbatim>\<open>v.Len()\<close>: arrays, slices, maps, channels and strings have a length.\<close>

definition valLen :: "heap \<Rightarrow> val \<Rightarrow> nat outcome" where
  "valLen h v =
     (case v of
        VArray t xs \<Rightarrow> Ret (length xs)
      | VSlice t p n \<Rightarrow> Ret n
      | VMap t kt p \<Rightarrow> (case mapEntries h p of Ret es \<Rightarrow> Ret (length es) | Panic \<Rightarrow> Panic | Stuck \<Rightarrow> Stuck)
      | VChan t n \<Rightarrow> Ret n
      | VString t s \<Rightarrow> Ret (length s)
      | _ \<Rightarrow> Panic)"

text \<open>\<^verbatim>\<open>v.Index(i)\<close>: arrays, slices and strings (whose elements are bytes).\<close>

definition valIndex :: "heap \<Rightarrow> val \<Rightarrow> nat \<Rightarrow> val outcome" where
  "valIndex h v i =
     (case v of
        VArray t xs \<Rightarrow> (if i < length xs then Ret (xs ! i) else Panic)
      | VSlice t p n \<Rightarrow>
          (if i < n
           then (case h p of
                   Some (HElems es) \<Rightarrow> (if i < length es then Ret (es ! i) else Stuck)
                 | _ \<Rightarrow> Stuck)
           else Panic)
      | VString t s \<Rightarrow> (if i < length s then Ret (VUint KUint8 (of_char (s ! i))) else Panic)
      | _ \<Rightarrow> Panic)"

text \<open>
  \<^verbatim>\<open>v.NumField()\<close> and \<^verbatim>\<open>v.Field(i)\<close>. \<^verbatim>\<open>big.Int\<close> has two fields and \<^verbatim>\<open>big.Float\<close>
  seven, all unexported: their contents are outside the model.
\<close>

definition valNumField :: "val \<Rightarrow> nat outcome" where
  "valNumField v =
     (case v of
        VStruct t fs \<Rightarrow> Ret (length fs)
      | VBigInt n \<Rightarrow> Ret 2
      | VBigFloat p s m \<Rightarrow> Ret 7
      | _ \<Rightarrow> Panic)"

definition valField :: "val \<Rightarrow> nat \<Rightarrow> val outcome" where
  "valField v i =
     (case v of
        VStruct t fs \<Rightarrow> (if i < length fs then Ret (fs ! i) else Panic)
      | VBigInt n \<Rightarrow> (if i < 2 then Stuck else Panic)
      | VBigFloat p s m \<Rightarrow> (if i < 7 then Stuck else Panic)
      | _ \<Rightarrow> Panic)"

text \<open>\<^verbatim>\<open>v.Elem()\<close> of a pointer or an interface: nil gives the invalid value.\<close>

definition valElem :: "heap \<Rightarrow> val \<Rightarrow> val outcome" where
  "valElem h v =
     (case v of
        VPtr t p \<Rightarrow> (if p = 0 then Ret Invalid
                      else case h p of Some (HVal x) \<Rightarrow> Ret x | _ \<Rightarrow> Stuck)
      | VIface x \<Rightarrow> Ret x
      | _ \<Rightarrow> Panic)"

text \<open>
  \<^verbatim>\<open>==\<close> on the values that can be map keys: same type and same contents, where floats
  compare as numbers (NaN differs from itself).
\<close>

primrec goEq :: "val \<Rightarrow> val \<Rightarrow> bool" where
  "goEq Invalid b = (b = Invalid)"
| "goEq (VBool x) b = (b = VBool x)"
| "goEq (VInt k i) b = (b = VInt k i)"
| "goEq (VUint k u) b = (b = VUint k u)"
| "goEq (VFloat k f) b = (case b of VFloat k' g \<Rightarrow> k = k' \<and> feq f g | _ \<Rightarrow> False)"
| "goEq (VComplex k re im) b =
     (case b of VComplex k' re' im' \<Rightarrow> k = k' \<and> feq re re' \<and> feq im im' | _ \<Rightarrow> False)"
| "goEq (VString t s) b = (b = VString t s)"
| "goEq (VArray t xs) b =
     (case b of VArray t' ys \<Rightarrow> t = t' \<and> list_all2 (\<lambda>f y. f y) (map goEq xs) ys | _ \<Rightarrow> False)"
| "goEq (VSlice t p n) b = False"
| "goEq (VMap t kt p) b = False"
| "goEq (VStruct t fs) b =
     (case b of VStruct t' gs \<Rightarrow> t = t' \<and> list_all2 (\<lambda>f y. f y) (map goEq fs) gs | _ \<Rightarrow> False)"
| "goEq (VBigInt n) b = False"
| "goEq (VBigFloat p s m) b = False"
| "goEq (VPtr t p) b = (b = VPtr t p)"
| "goEq (VIface x) b = (case b of VIface y \<Rightarrow> goEq x y | _ \<Rightarrow> False)"
| "goEq (VUintptr u) b = (b = VUintptr u)"
| "goEq (VUnsafePointer p) b = (b = VUnsafePointer p)"
| "goEq (VChan t n) b = (b = VChan t n)"
| "goEq (VFunc t) b = False"

text \<open>
  The dynamic types that a map with interface keys cannot hash (the runtime panics):
  slices, maps, functions, and whatever contains one (the big numbers hold a slice).
\<close>

primrec hashable :: "val \<Rightarrow> bool" where
  "hashable Invalid = True"
| "hashable (VBool x) = True"
| "hashable (VInt k i) = True"
| "hashable (VUint k u) = True"
| "hashable (VFloat k f) = True"
| "hashable (VComplex k re im) = True"
| "hashable (VString t s) = True"
| "hashable (VArray t xs) = list_all (\<lambda>b. b) (map hashable xs)"
| "hashable (VSlice t p n) = False"
| "hashable (VMap t kt p) = False"
| "hashable (VStruct t fs) = list_all (\<lambda>b. b) (map hashable fs)"
| "hashable (VBigInt n) = False"
| "hashable (VBigFloat p s m) = False"
| "hashable (VPtr t p) = True"
| "hashable (VIface x) = hashable x"
| "hashable (VUintptr u) = True"
| "hashable (VUnsafePointer p) = True"
| "hashable (VChan t n) = True"
| "hashable (VFunc t) = False"

definition unIface :: "val \<Rightarrow> val" where
  "unIface v = (case v of VIface x \<Rightarrow> x | _ \<Rightarrow> v)"

text \<open>The value stored under a key equal to \<open>key\<close>, or the invalid value.\<close>

fun lookupEntry :: "(val \<times> val) list \<Rightarrow> val \<Rightarrow> val" where
  "lookupEntry [] key = Invalid"
| "lookupEntry ((k, v) # es) key = (if goEq (unIface k) key then v else lookupEntry es key)"

text \<open>
  \<^verbatim>\<open>m.MapIndex(key)\<close>: panics unless \<open>m\<close> is a map and the key is assignable to its key
  type, that is, has that very type, or the key type is \<^verbatim>\<open>interface {}\<close>. The result is
  the invalid value when the key is absent.
\<close>

definition MapIndex :: "heap \<Rightarrow> val \<Rightarrow> val \<Rightarrow> val outcome" where
  "MapIndex h m key =
     (case m of
        VMap t kt p \<Rightarrow>
          (if key = Invalid then Panic
           else if kt \<noteq> ''interface {}'' \<and> typeName key \<noteq> kt then Panic
           else if kt = ''interface {}'' \<and> \<not> hashable key then Panic
           else (case mapEntries h p of
                   Ret es \<Rightarrow> Ret (lookupEntry es key)
                 | Panic \<Rightarrow> Panic
                 | Stuck \<Rightarrow> Stuck))
      | _ \<Rightarrow> Panic)"

section \<open>The keyed-lookup resolver\<close>

text \<open>
  \<open>orElse r k\<close>: the shape \<^verbatim>\<open>if v := \<dots>; v.IsValid() { return v }\<close> followed by the rest
  \<open>k\<close> of the function.
\<close>

definition orElse :: "val outcome \<Rightarrow> val outcome \<Rightarrow> val outcome" where
  "orElse r k = (case r of Ret v \<Rightarrow> (if v \<noteq> Invalid then Ret v else k) | Panic \<Rightarrow> Panic | Stuck \<Rightarrow> Stuck)"

definition getIntKeyedMapValue :: "heap \<Rightarrow> val \<Rightarrow> int64 \<Rightarrow> val outcome" where
  "getIntKeyedMapValue h aMap aKey =
     orElse (MapIndex h aMap (VInt KInt64 aKey))
    (orElse (MapIndex h aMap (VInt KInt aKey))
    (orElse (if scast (ucast aKey :: 32 word) = aKey
             then MapIndex h aMap (VInt KInt32 (scast (ucast aKey :: 32 word))) else Ret Invalid)
    (orElse (if scast (ucast aKey :: 16 word) = aKey
             then MapIndex h aMap (VInt KInt16 (scast (ucast aKey :: 16 word))) else Ret Invalid)
    (orElse (if scast (ucast aKey :: 8 word) = aKey
             then MapIndex h aMap (VInt KInt8 (scast (ucast aKey :: 8 word))) else Ret Invalid)
    (Ret Invalid)))))"

definition getUintKeyedMapValue :: "heap \<Rightarrow> val \<Rightarrow> uint64 \<Rightarrow> val outcome" where
  "getUintKeyedMapValue h aMap aKey =
     orElse (MapIndex h aMap (VUint KUint64 aKey))
    (orElse (MapIndex h aMap (VUint KUint aKey))
    (orElse (if ucast (ucast aKey :: 32 word) = aKey
             then MapIndex h aMap (VUint KUint32 (ucast (ucast aKey :: 32 word))) else Ret Invalid)
    (orElse (if ucast (ucast aKey :: 16 word) = aKey
             then MapIndex h aMap (VUint KUint16 (ucast (ucast aKey :: 16 word))) else Ret Invalid)
    (orElse (if ucast (ucast aKey :: 8 word) = aKey
             then MapIndex h aMap (VUint KUint8 (ucast (ucast aKey :: 8 word))) else Ret Invalid)
    (Ret Invalid)))))"

definition getFloatKeyedMapValue :: "heap \<Rightarrow> val \<Rightarrow> float64 \<Rightarrow> val outcome" where
  "getFloatKeyedMapValue h aMap aKey =
     orElse (MapIndex h aMap (VFloat KFloat64 aKey))
    (orElse (if feq (to_float32 aKey) aKey
             then MapIndex h aMap (VFloat KFloat32 (to_float32 aKey)) else Ret Invalid)
    (Ret Invalid))"

definition getMapValue :: "heap \<Rightarrow> val \<Rightarrow> val \<Rightarrow> val outcome" where
  "getMapValue h aMap aKey0 =
     (let aKey = unIface aKey0
      in orElse (MapIndex h aMap aKey)
        (case aKey of
           VInt k asInt \<Rightarrow>
             orElse (getIntKeyedMapValue h aMap asInt)
            (orElse (if 0 \<le>s asInt then getUintKeyedMapValue h aMap asInt else Ret Invalid)
            (getFloatKeyedMapValue h aMap (i2f asInt)))
         | VUint k asUint \<Rightarrow>
             orElse (getUintKeyedMapValue h aMap asUint)
            (orElse (if asUint \<le> 0x7FFFFFFFFFFFFFFF then getIntKeyedMapValue h aMap asUint
                     else Ret Invalid)
            (getFloatKeyedMapValue h aMap (u2f asUint)))
         | VFloat k asFloat \<Rightarrow>
             orElse (if feq (i2f (f2i64 asFloat)) asFloat
                     then getIntKeyedMapValue h aMap (f2i64 asFloat) else Ret Invalid)
            (orElse (if feq (u2f (f2u64 asFloat)) asFloat
                     then getUintKeyedMapValue h aMap (f2u64 asFloat) else Ret Invalid)
            (Ret Invalid))
         | _ \<Rightarrow> Ret Invalid))"

section \<open>The cycle guard and the dereference walker\<close>

text \<open>
  \<^verbatim>\<open>duplicates.DuplicateFinder\<close> belongs to another library. It is modelled as the
  specification describes it: a set of identities, whose \<^verbatim>\<open>RegisterPointer\<close> says whether
  the identity was already present and records it. The identity of a pointer, slice or
  map is its type together with its address.
\<close>

type_synonym finder = "(string \<times> addr) set"

record comparator =
  aFinder :: finder
  bFinder :: finder

definition newComparator :: comparator where
  "newComparator = \<lparr>aFinder = {}, bFinder = {}\<rparr>"

definition identity :: "val \<Rightarrow> string \<times> addr" where
  "identity v =
     (case v of
        VPtr t p \<Rightarrow> (t, p)
      | VSlice t p n \<Rightarrow> (t, p)
      | VMap t kt p \<Rightarrow> (t, p)
      | _ \<Rightarrow> ([], 0))"

definition RegisterPointer :: "finder \<Rightarrow> val \<Rightarrow> bool \<times> finder" where
  "RegisterPointer f v = (identity v \<in> f, insert (identity v) f)"

text \<open>
  \<^verbatim>\<open>drillDown\<close>: the loop runs while the value is a pointer or an interface; one unit of
  fuel per round.
\<close>

fun drillDown :: "nat \<Rightarrow> heap \<Rightarrow> finder \<Rightarrow> val \<Rightarrow> ((val \<times> bool) \<times> finder) outcome" where
  "drillDown 0 h f v = Stuck"
| "drillDown (Suc n) h f v =
     (case v of
        VPtr t p \<Rightarrow>
          (case RegisterPointer f v of
             (hasDuplicate, f') \<Rightarrow>
               if hasDuplicate then Ret ((v, True), f')
               else (case valElem h v of
                       Ret x \<Rightarrow> drillDown n h f' x
                     | Panic \<Rightarrow> Panic
                     | Stuck \<Rightarrow> Stuck))
      | VIface x \<Rightarrow> drillDown n h f x
      | _ \<Rightarrow> Ret ((v, False), f))"

section \<open>The structural recursion\<close>

text \<open>
  The comparator threads its two finders through every call, so each function returns
  the comparator next to its verdict. \<open>areObjectsEquivalent\<close> spends one unit of fuel per
  call; the three loops recurse on what is left to visit.
\<close>

text \<open>\<^verbatim>\<open>v.Kind()\<close>.\<close>

datatype kind =
    KindInvalid | KindBool | KindInt | KindUint | KindFloat | KindComplex | KindString
  | KindArray | KindSlice | KindMap | KindStruct | KindPtr | KindInterface | KindUintptr
  | KindUnsafePointer | KindChan | KindFunc

definition Kind :: "val \<Rightarrow> kind" where
  "Kind v =
     (case v of
        Invalid \<Rightarrow> KindInvalid
      | VBool x \<Rightarrow> KindBool
      | VInt k i \<Rightarrow> KindInt
      | VUint k u \<Rightarrow> KindUint
      | VFloat k f \<Rightarrow> KindFloat
      | VComplex k re im \<Rightarrow> KindComplex
      | VString t s \<Rightarrow> KindString
      | VArray t xs \<Rightarrow> KindArray
      | VSlice t p n \<Rightarrow> KindSlice
      | VMap t kt p \<Rightarrow> KindMap
      | VStruct t fs \<Rightarrow> KindStruct
      | VBigInt x \<Rightarrow> KindStruct
      | VBigFloat pr s m \<Rightarrow> KindStruct
      | VPtr t p \<Rightarrow> KindPtr
      | VIface x \<Rightarrow> KindInterface
      | VUintptr u \<Rightarrow> KindUintptr
      | VUnsafePointer p \<Rightarrow> KindUnsafePointer
      | VChan t q \<Rightarrow> KindChan
      | VFunc t \<Rightarrow> KindFunc)"

text \<open>
  The cases of the \<^verbatim>\<open>switch a.Kind()\<close> of \<^verbatim>\<open>areObjectsEquivalent\<close> that do not recurse.
  \<^verbatim>\<open>a.Pointer()\<close> panics on a value of kind Uintptr (it takes channels, functions, maps,
  pointers, slices and unsafe pointers). \<^verbatim>\<open>a.UnsafeAddr()\<close> depends on whether the
  value is addressable, which the model does not record.
\<close>

definition areObjectsEquivalent_switch :: "val \<Rightarrow> val \<Rightarrow> bool outcome" where
  "areObjectsEquivalent_switch a b =
     (case a of
        VBool x \<Rightarrow> (case valBool b of Ret y \<Rightarrow> Ret (x = y) | Panic \<Rightarrow> Panic | Stuck \<Rightarrow> Stuck)
      | VInt k i \<Rightarrow> Ret (isEquivalentToInt i b)
      | VUint k u \<Rightarrow> Ret (isEquivalentToUint u b)
      | VFloat k f \<Rightarrow> Ret (isEquivalentToFloat f b)
      | VComplex k re im \<Rightarrow>
          (case valComplex b of
             Ret (re', im') \<Rightarrow> Ret (feq re re' \<and> feq im im')
           | Panic \<Rightarrow> Panic
           | Stuck \<Rightarrow> Stuck)
      | VString t s \<Rightarrow> Ret (case b of VString t' s' \<Rightarrow> t = t' \<and> s = s' | _ \<Rightarrow> False)
      | VUintptr u \<Rightarrow> Panic
      | VUnsafePointer p \<Rightarrow> Stuck
      | VChan t q \<Rightarrow> Ret (case b of VChan t' q' \<Rightarrow> t = t' | _ \<Rightarrow> False)
      | VFunc t \<Rightarrow> Ret (case b of VFunc t' \<Rightarrow> t = t' | _ \<Rightarrow> False)
      | _ \<Rightarrow> Ret False)"

text \<open>The two calls of \<^verbatim>\<open>drillDown\<close> that open \<^verbatim>\<open>areObjectsEquivalent\<close>.\<close>

definition drillDownBoth ::
  "nat \<Rightarrow> heap \<Rightarrow> comparator \<Rightarrow> val \<Rightarrow> val \<Rightarrow> (val \<times> val \<times> bool \<times> comparator) outcome" where
  "drillDownBoth n h c a0 b0 =
     (case drillDown n h (aFinder c) a0 of
        Panic \<Rightarrow> Panic
      | Stuck \<Rightarrow> Stuck
      | Ret ((a, aHasDuplicate), fa) \<Rightarrow>
     (case drillDown n h (bFinder c) b0 of
        Panic \<Rightarrow> Panic
      | Stuck \<Rightarrow> Stuck
      | Ret ((b, bHasDuplicate), fb) \<Rightarrow>
          Ret (a, b, aHasDuplicate \<or> bHasDuplicate, \<lparr>aFinder = fa, bFinder = fb\<rparr>)))"

text \<open>The comparator after \<^verbatim>\<open>_this.aFinder.RegisterPointer(a)\<close>.\<close>

definition registerA :: "comparator \<Rightarrow> val \<Rightarrow> bool \<times> comparator" where
  "registerA c a = (fst (RegisterPointer (aFinder c) a), c\<lparr>aFinder := snd (RegisterPointer (aFinder c) a)\<rparr>)"

text \<open>\<^verbatim>\<open>mapRange(a)\<close>: the entries of the map, in the order of this run.\<close>

definition mapRange :: "heap \<Rightarrow> val \<Rightarrow> (val \<times> val) list outcome" where
  "mapRange h a = (case a of VMap t kt p \<Rightarrow> mapEntries h p | _ \<Rightarrow> Panic)"

text \<open>
  The \<^verbatim>\<open>switch a.Type()\<close> that opens \<^verbatim>\<open>areStructsEquivalent\<close>: the two big-number
  types are answered at once, \<open>None\<close> is every other struct type.
\<close>

definition areStructsEquivalent_switch :: "val \<Rightarrow> val \<Rightarrow> bool option" where
  "areStructsEquivalent_switch a b =
     (case a of
        VBigInt x \<Rightarrow> Some (isEquivalentToBigInt x b)
      | VBigFloat pr s m \<Rightarrow> Some (isEquivalentToBigFloat pr s m b)
      | _ \<Rightarrow> None)"

function (sequential) areObjectsEquivalent ::
      "nat \<Rightarrow> heap \<Rightarrow> comparator \<Rightarrow> val \<Rightarrow> val \<Rightarrow> (bool \<times> comparator) outcome"
  and areArraysOrSlicesEquivalent ::
      "nat \<Rightarrow> heap \<Rightarrow> comparator \<Rightarrow> val \<Rightarrow> val \<Rightarrow> (bool \<times> comparator) outcome"
  and arraysOrSlicesLoop ::
      "nat \<Rightarrow> heap \<Rightarrow> comparator \<Rightarrow> val \<Rightarrow> val \<Rightarrow> nat list \<Rightarrow> (bool \<times> comparator) outcome"
  and areMapsEquivalent ::
      "nat \<Rightarrow> heap \<Rightarrow> comparator \<Rightarrow> val \<Rightarrow> val \<Rightarrow> (bool \<times> comparator) outcome"
  and mapsLoop ::
      "nat \<Rightarrow> heap \<Rightarrow> comparator \<Rightarrow> (val \<times> val) list \<Rightarrow> val \<Rightarrow> (bool \<times> comparator) outcome"
  and areStructsEquivalent ::
      "nat \<Rightarrow> heap \<Rightarrow> comparator \<Rightarrow> val \<Rightarrow> val \<Rightarrow> (bool \<times> comparator) outcome"
  and structsLoop ::
      "nat \<Rightarrow> heap \<Rightarrow> comparator \<Rightarrow> val \<Rightarrow> val \<Rightarrow> nat list \<Rightarrow> (bool \<times> comparator) outcome"
where
  "areObjectsEquivalent 0 h c a0 b0 = Stuck"
| "areObjectsEquivalent (Suc n) h c a0 b0 =
     (case drillDownBoth (Suc n) h c a0 b0 of
        Panic \<Rightarrow> Panic
      | Stuck \<Rightarrow> Stuck
      | Ret (a, b, hasDuplicate, c1) \<Rightarrow>
          if hasDuplicate then Ret (True, c1)
          else if a = Invalid \<or> b = Invalid then Ret (a = Invalid \<and> b = Invalid, c1)
          else if Kind a = KindArray then areArraysOrSlicesEquivalent n h c1 a b
          else if Kind a = KindSlice
          then (if fst (registerA c1 a) then Ret (True, snd (registerA c1 a))
                else areArraysOrSlicesEquivalent n h (snd (registerA c1 a)) a b)
          else if Kind a = KindMap
          then (if fst (registerA c1 a) then Ret (True, snd (registerA c1 a))
                else areMapsEquivalent n h (snd (registerA c1 a)) a b)
          else if Kind a = KindStruct then areStructsEquivalent n h c1 a b
          else (case areObjectsEquivalent_switch a b of
                  Ret r \<Rightarrow> Ret (r, c1)
                | Panic \<Rightarrow> Panic
                | Stuck \<Rightarrow> Stuck))"
| "areArraysOrSlicesEquivalent n h c a b =
     (case valLen h a of
        Panic \<Rightarrow> Panic
      | Stuck \<Rightarrow> Stuck
      | Ret la \<Rightarrow>
     (case valLen h b of
        Panic \<Rightarrow> Panic
      | Stuck \<Rightarrow> Stuck
      | Ret lb \<Rightarrow>
          if la \<noteq> lb then Ret (False, c) else arraysOrSlicesLoop n h c a b [0 ..< la]))"
| "arraysOrSlicesLoop n h c a b [] = Ret (True, c)"
| "arraysOrSlicesLoop n h c a b (i # is) =
     (case valIndex h a i of
        Panic \<Rightarrow> Panic
      | Stuck \<Rightarrow> Stuck
      | Ret x \<Rightarrow>
     (case valIndex h b i of
        Panic \<Rightarrow> Panic
      | Stuck \<Rightarrow> Stuck
      | Ret y \<Rightarrow>
     (case areObjectsEquivalent n h c x y of
        Panic \<Rightarrow> Panic
      | Stuck \<Rightarrow> Stuck
      | Ret (r, c') \<Rightarrow> if \<not> r then Ret (False, c') else arraysOrSlicesLoop n h c' a b is)))"
| "areMapsEquivalent n h c a b =
     (case valLen h a of
        Panic \<Rightarrow> Panic
      | Stuck \<Rightarrow> Stuck
      | Ret la \<Rightarrow>
     (case valLen h b of
        Panic \<Rightarrow> Panic
      | Stuck \<Rightarrow> Stuck
      | Ret lb \<Rightarrow>
          if la \<noteq> lb then Ret (False, c)
          else (case mapRange h a of
                  Ret es \<Rightarrow> mapsLoop n h c es b
                | Panic \<Rightarrow> Panic
                | Stuck \<Rightarrow> Stuck)))"
| "mapsLoop n h c [] b = Ret (True, c)"
| "mapsLoop n h c ((k, av) # es) b =
     (case getMapValue h b k of
        Panic \<Rightarrow> Panic
      | Stuck \<Rightarrow> Stuck
      | Ret bv \<Rightarrow>
     (case areObjectsEquivalent n h c av bv of
        Panic \<Rightarrow> Panic
      | Stuck \<Rightarrow> Stuck
      | Ret (r, c') \<Rightarrow> if \<not> r then Ret (False, c') else mapsLoop n h c' es b))"
| "areStructsEquivalent n h c a b =
     (case areStructsEquivalent_switch a b of
        Some r \<Rightarrow> Ret (r, c)
      | None \<Rightarrow>
     (case valNumField a of
        Panic \<Rightarrow> Panic
      | Stuck \<Rightarrow> Stuck
      | Ret na \<Rightarrow>
     (case valNumField b of
        Panic \<Rightarrow> Panic
      | Stuck \<Rightarrow> Stuck
      | Ret nb \<Rightarrow>
          if na \<noteq> nb then Ret (False, c) else structsLoop n h c a b [0 ..< na])))"
| "structsLoop n h c a b [] = Ret (True, c)"
| "structsLoop n h c a b (i # is) =
     (case valField a i of
        Panic \<Rightarrow> Panic
      | Stuck \<Rightarrow> Stuck
      | Ret x \<Rightarrow>
     (case valField b i of
        Panic \<Rightarrow> Panic
      | Stuck \<Rightarrow> Stuck
      | Ret y \<Rightarrow>
     (case areObjectsEquivalent n h c x y of
        Panic \<Rightarrow> Panic
      | Stuck \<Rightarrow> Stuck
      | Ret (r, c') \<Rightarrow> if \<not> r then Ret (False, c') else structsLoop n h c' a b is)))"
  by pat_completeness auto

termination
  by (relation "measures
        [case_sum (case_sum fst (case_sum fst fst))
                  (case_sum (case_sum fst fst) (case_sum fst fst)),
         case_sum (case_sum (\<lambda>_. 0) (case_sum (\<lambda>_. 2) (\<lambda>_. 1)))
                  (case_sum (case_sum (\<lambda>_. 2) (\<lambda>_. 1)) (case_sum (\<lambda>_. 2) (\<lambda>_. 1))),
         case_sum (case_sum (\<lambda>_. 0) (case_sum (\<lambda>_. 0) (\<lambda>(n, h, c, a, b, is). length is)))
                  (case_sum (case_sum (\<lambda>_. 0) (\<lambda>(n, h, c, es, b). length es))
                            (case_sum (\<lambda>_. 0) (\<lambda>(n, h, c, a, b, is). length is)))]")
     auto

section \<open>The entry point\<close>

text \<open>
  The arguments are \<^verbatim>\<open>interface{}\<close> values: \<open>Invalid\<close> stands for the untyped nil, whose
  \<^verbatim>\<open>reflect.ValueOf\<close> is the invalid value. \<open>IsEquivalent_body\<close> is the function without
  its deferred handler, \<open>IsEquivalent\<close> the function as callers see it: \<^verbatim>\<open>recover\<close> turns a
  panic into the result \<^verbatim>\<open>false\<close>. \<open>None\<close> is a run the model cannot follow.
\<close>

definition IsEquivalent_body :: "nat \<Rightarrow> heap \<Rightarrow> val \<Rightarrow> val \<Rightarrow> bool outcome" where
  "IsEquivalent_body fuel h a b =
     (if a = Invalid \<and> b = Invalid then Ret True
      else case areObjectsEquivalent fuel h newComparator a b of
             Ret (r, c) \<Rightarrow> Ret r
           | Panic \<Rightarrow> Panic
           | Stuck \<Rightarrow> Stuck)"

definition IsEquivalent :: "nat \<Rightarrow> heap \<Rightarrow> val \<Rightarrow> val \<Rightarrow> bool option" where
  "IsEquivalent fuel h a b =
     (case IsEquivalent_body fuel h a b of
        Ret r \<Rightarrow> Some r
      | Panic \<Rightarrow> Some False
      | Stuck \<Rightarrow> None)"

section \<open>Inputs used as examples\<close>

text \<open>
  Two structs of two pointer fields: on the left both fields hold the same pointer to a
  1, on the right the first field points to another 1 and the second is nil.
  \<open>afterFirst\<close> is the comparator once the first pair of fields has been compared.
\<close>

definition sharedHeap :: heap where
  "sharedHeap = [1 \<mapsto> HVal (VInt KInt 1), 2 \<mapsto> HVal (VInt KInt 1)]"

definition afterFirst :: comparator where
  "afterFirst = \<lparr>aFinder = {(''*int'', 1)}, bFinder = {(''*int'', 2)}\<rparr>"

text \<open>\<^verbatim>\<open>big.NewInt(10000000)\<close> and \<^verbatim>\<open>big.NewInt(100)\<close>: pointers to the numbers.\<close>

definition bigHeap :: heap where
  "bigHeap = [1 \<mapsto> HVal (VBigInt 10000000), 2 \<mapsto> HVal (VBigInt 100)]"

section \<open>Facts about the dereference walker\<close>

lemma drillDown_concrete:
  "Kind v \<noteq> KindPtr \<Longrightarrow> Kind v \<noteq> KindInterface \<Longrightarrow> drillDown (Suc n) h f v = Ret ((v, False), f)"
  by (cases v) (simp_all add: Kind_def)

lemma drillDownBoth_concrete:
  "Kind a \<noteq> KindPtr \<Longrightarrow> Kind a \<noteq> KindInterface \<Longrightarrow> Kind b \<noteq> KindPtr \<Longrightarrow> Kind b \<noteq> KindInterface
   \<Longrightarrow> drillDownBoth (Suc n) h c a b = Ret (a, b, False, c)"
  by (simp add: drillDownBoth_def drillDown_concrete del: drillDown.simps)

lemma drillDown_nil_pointer:
  "(t, 0) \<notin> f \<Longrightarrow> drillDown (Suc (Suc n)) h f (VPtr t 0) = Ret ((Invalid, False), insert (t, 0) f)"
  by (simp add: RegisterPointer_def identity_def valElem_def)

lemma drillDown_Invalid: "drillDown (Suc n) h f Invalid = Ret ((Invalid, False), f)"
  by simp

lemma valLen_map_zero:
  "valLen h (VMap t kt p) = Ret 0 \<Longrightarrow> mapRange h (VMap t kt p) = Ret []"
  by (auto simp: valLen_def mapRange_def split: outcome.splits)

section \<open>Facts about the decimal text of numbers\<close>

lemma digit_char_in: "digit_char d \<in> set ''0123456789''"
proof -
  have "nat (d mod 10) < length ''0123456789''" by simp
  then show ?thesis unfolding digit_char_def by (rule nth_mem)
qed

lemma decimal_digits: "set (decimal n) \<subseteq> set ''0123456789''"
proof (induction n rule: decimal.induct)
  case (1 n)
  show ?case
  proof (cases "n < 10")
    case True
    then show ?thesis using digit_char_in [of n] by (subst decimal.simps) simp
  next
    case False
    then show ?thesis using 1 digit_char_in [of "n mod 10"] by (subst decimal.simps) simp
  qed
qed

lemma decimal_not_Nil: "decimal n \<noteq> []"
  by (subst decimal.simps) simp

lemma decimal_not_N: "decimal n \<noteq> CHR ''N'' # s"
proof
  assume "decimal n = CHR ''N'' # s"
  then have "CHR ''N'' \<in> set (decimal n)" by simp
  then show False using decimal_digits [of n] by auto
qed

lemma int_string_not_N: "int_string i \<noteq> CHR ''N'' # s"
  by (simp add: int_string_def decimal_not_N)

lemma strip_zeros_subset: "set (strip_zeros s) \<subseteq> set s"
  unfolding strip_zeros_def using set_dropWhileD [of _ _ "rev s"] by auto

lemma mk_decimal_digs: "CHR ''N'' \<notin> set (digs (mk_decimal n e c))"
  using strip_zeros_subset [of "decimal c"] decimal_digits [of c] by (auto simp: mk_decimal_def)

lemma dec_round_digs: "CHR ''N'' \<notin> set (digs (dec_round n a))"
  by (simp add: dec_round_def Let_def mk_decimal_digs)

lemma digit_at_not_N:
  assumes "CHR ''N'' \<notin> set (digs d)"
  shows "digit_at d i \<noteq> CHR ''N''"
proof (cases "0 \<le> i \<and> i < int (length (digs d))")
  case True
  then have "nat i < length (digs d)" by linarith
  then have "digs d ! nat i \<in> set (digs d)" by (rule nth_mem)
  with assms have "digs d ! nat i \<noteq> CHR ''N''" by metis
  with True show ?thesis by (simp add: digit_at_def)
next
  case False
  then show ?thesis by (auto simp: digit_at_def)
qed

lemma fmtE_not_N: "CHR ''N'' \<notin> set (digs d) \<Longrightarrow> fmtE d p \<noteq> CHR ''N'' # s"
  by (simp add: fmtE_def Let_def digit_at_not_N)

lemma fmtF_not_N: "CHR ''N'' \<notin> set (digs d) \<Longrightarrow> fmtF d p \<noteq> CHR ''N'' # s"
proof -
  assume a: "CHR ''N'' \<notin> set (digs d)"
  show ?thesis
  proof (cases "0 < dp d")
    case True
    then have "[0 ..< nat (dp d)] = 0 # [Suc 0 ..< nat (dp d)]" by (simp add: upt_rec)
    then show ?thesis using True a by (simp add: fmtF_def Let_def digit_at_not_N)
  next
    case False
    then show ?thesis by (simp add: fmtF_def Let_def)
  qed
qed

lemma fmtG_not_N: "CHR ''N'' \<notin> set (digs d) \<Longrightarrow> fmtG sh d p \<noteq> CHR ''N'' # s"
  by (simp add: fmtG_def Let_def fmtE_not_N fmtF_not_N)

lemma bigFloatToString_not_N: "bigFloatToString p neg m \<noteq> CHR ''N'' # s"
  by (cases m) (simp_all add: bigFloatToString_def bigFloat_Text_def Let_def fmtG_not_N dec_round_digs)

lemma bigInt_String_not_N: "bigInt_String n \<noteq> CHR ''N'' # s"
  by (simp add: bigInt_String_def int_string_not_N)

lemma floatToString_1e7: "floatToString (FFin 10000000) = ''1e+07''"
  by code_simp

lemma bigInt_String_1e7: "bigInt_String 10000000 = ''10000000''"
  by code_simp

lemma floatToString_100: "floatToString (FFin 100) = ''100''"
  by code_simp

lemma bigInt_String_100: "bigInt_String 100 = ''100''"
  by code_simp

section \<open>The numeric rule, at the inputs of the signed/unsigned case\<close>

text \<open>
  C1. The claim: a signed \<open>a\<close> against an unsigned \<open>b\<close> is rejected exactly when
  \<open>b > 2^63 - 1\<close>, and compared as signed integers otherwise. The mask in the code is
  \<^verbatim>\<open>0x1000000000000000\<close>, bit 60, not the sign bit: \<open>2^60\<close> against the unsigned
  \<open>2^60\<close> is rejected although both are the same number below \<open>2^63\<close>, and the least
  signed integer against the unsigned \<open>2^63\<close> is accepted although \<open>b\<close> exceeds
  \<open>2^63 - 1\<close>.
\<close>

theorem C1_mask_is_bit_60:
  "isEquivalentToInt (2 ^ 60) (VUint KUint64 (2 ^ 60)) = False
   \<and> uint (2 ^ 60 :: uint64) \<le> 2 ^ 63 - 1
   \<and> sint (2 ^ 60 :: int64) = uint (2 ^ 60 :: uint64)
   \<and> isEquivalentToInt (2 ^ 63) (VUint KUint64 (2 ^ 63)) = True
   \<and> uint (2 ^ 63 :: uint64) > 2 ^ 63 - 1"
  by (simp add: isEquivalentToInt_def)

section \<open>Reflexivity\<close>

text \<open>
  C2. The claim: \<open>IsEquivalent(v, v)\<close> is true for every value \<open>v\<close>. The case
  \<^verbatim>\<open>reflect.Uintptr\<close> of the switch compares \<^verbatim>\<open>a.Pointer() == b.Pointer()\<close>, and
  \<^verbatim>\<open>Pointer\<close> panics on a value of kind Uintptr; the panic is recovered into \<^verbatim>\<open>false\<close>.
  So no \<^verbatim>\<open>uintptr\<close> is equivalent to itself.
\<close>

theorem C2_uintptr_not_reflexive:
  "IsEquivalent (Suc n) h (VUintptr u) (VUintptr u) = Some False"
  by (simp add: IsEquivalent_def IsEquivalent_body_def newComparator_def drillDownBoth_concrete
        Kind_def areObjectsEquivalent_switch_def del: drillDown.simps)

section \<open>Failure containment\<close>



section \<open>Arbitrary-precision numbers against native ones\<close>

text \<open>
  C7. The claim: a big number and a native number of the same magnitude are equivalent
  in both orders, in particular the big integer 10000000 and the float 10000000.0. The
  code compares decimal texts: the big integer renders as \<^verbatim>\<open>10000000\<close>, the float (format
  \<^verbatim>\<open>'g'\<close>, shortest digits, exponent form from \<open>10^6\<close> on) as \<^verbatim>\<open>1e+07\<close>. The two are
  not equivalent, in either order; at 100 both texts are \<^verbatim>\<open>100\<close> and they are.
\<close>

theorem C7_bigint_against_float:
  "IsEquivalent (Suc (Suc 0)) bigHeap (VPtr ''*big.Int'' 1) (VFloat KFloat64 (FFin 10000000)) = Some False
   \<and> IsEquivalent (Suc (Suc 0)) bigHeap (VFloat KFloat64 (FFin 10000000)) (VPtr ''*big.Int'' 1) = Some False
   \<and> IsEquivalent (Suc (Suc 0)) bigHeap (VPtr ''*big.Int'' 2) (VFloat KFloat64 (FFin 100)) = Some True"
  by (simp add: IsEquivalent_def IsEquivalent_body_def drillDownBoth_def newComparator_def
        RegisterPointer_def identity_def valElem_def bigHeap_def Kind_def
        areObjectsEquivalent_switch_def isEquivalentToFloat_def areStructsEquivalent_switch_def
        isEquivalentToBigInt_def numericToString_def floatToString_1e7 bigInt_String_1e7
        floatToString_100 bigInt_String_100)

section \<open>Empty containers\<close>

text \<open>
  C8. Two empty containers (arrays, slices or maps of length 0, whatever their types) are
  equivalent.
\<close>

theorem C8_empty_containers:
  assumes "Kind a = KindArray \<or> Kind a = KindSlice \<or> Kind a = KindMap"
    and "Kind b = KindArray \<or> Kind b = KindSlice \<or> Kind b = KindMap"
    and "valLen h a = Ret 0" and "valLen h b = Ret 0"
  shows "IsEquivalent (Suc n) h a b = Some True"
proof -
  have d: "drillDownBoth (Suc n) h newComparator a b = Ret (a, b, False, newComparator)"
    using assms(1,2) by (intro drillDownBoth_concrete) auto
  have ne: "a \<noteq> Invalid" "b \<noteq> Invalid"
    using assms(1,2) by (auto simp: Kind_def)
  have r: "\<not> fst (registerA newComparator a)"
    by (simp add: registerA_def RegisterPointer_def newComparator_def)
  have m: "Kind a = KindMap \<Longrightarrow> mapRange h a = Ret []"
    using assms(3) by (cases a) (simp_all add: Kind_def valLen_map_zero)
  have "areObjectsEquivalent (Suc n) h newComparator a b
          = Ret (True, if Kind a = KindArray then newComparator else snd (registerA newComparator a))"
    using assms d ne r m by (auto simp del: drillDown.simps)
  then show ?thesis
    using ne by (simp add: IsEquivalent_def IsEquivalent_body_def)
qed

theorem C8_empty_containers_witness:
  "IsEquivalent (Suc 0) Map.empty (VSlice ''[]int'' 0 0) (VMap ''map[string]bool'' ''string'' 0) = Some True"
  using C8_empty_containers [of "VSlice ''[]int'' 0 0" "VMap ''map[string]bool'' ''string'' 0" Map.empty 0]
  by (simp add: Kind_def valLen_def mapEntries_def)


section \<open>Absent values\<close>

text \<open>
  C9, as amended. A nil pointer of any type and the untyped nil are equivalent, in both
  orders. After the two drill-downs, provided neither met a pointer it had already
  registered, the pair is equivalent when both values are invalid and not equivalent
  when exactly one is.
\<close>

theorem C9_absent_operands:
  "IsEquivalent (Suc (Suc n)) h Invalid (VPtr t 0) = Some True
   \<and> IsEquivalent (Suc (Suc n)) h (VPtr t 0) Invalid = Some True
   \<and> (drillDownBoth (Suc n) h c a0 b0 = Ret (a, b, False, c1) \<longrightarrow> a = Invalid \<or> b = Invalid \<longrightarrow>
        areObjectsEquivalent (Suc n) h c a0 b0 = Ret (a = Invalid \<and> b = Invalid, c1))"
proof -
  have 1: "IsEquivalent (Suc (Suc n)) h Invalid (VPtr t 0) = Some True"
    by (simp add: IsEquivalent_def IsEquivalent_body_def newComparator_def drillDownBoth_def
        drillDown_nil_pointer drillDown_Invalid del: drillDown.simps)
  have 2: "IsEquivalent (Suc (Suc n)) h (VPtr t 0) Invalid = Some True"
    by (simp add: IsEquivalent_def IsEquivalent_body_def newComparator_def drillDownBoth_def
        drillDown_nil_pointer drillDown_Invalid del: drillDown.simps)
  have 3: "drillDownBoth (Suc n) h c a0 b0 = Ret (a, b, False, c1) \<longrightarrow> a = Invalid \<or> b = Invalid \<longrightarrow>
        areObjectsEquivalent (Suc n) h c a0 b0 = Ret (a = Invalid \<and> b = Invalid, c1)"
    by (auto simp del: drillDown.simps)
  from 1 2 3 show ?thesis by blast
qed

theorem C9_absent_operands_witness:
  "IsEquivalent (Suc (Suc 0)) Map.empty Invalid (VPtr ''*int'' 0) = Some True
   \<and> IsEquivalent (Suc (Suc 0)) Map.empty (VPtr ''*int'' 0) Invalid = Some True
   \<and> drillDownBoth (Suc 0) Map.empty newComparator (VInt KInt 1) Invalid
       = Ret (VInt KInt 1, Invalid, False, newComparator)
   \<and> areObjectsEquivalent (Suc 0) Map.empty newComparator (VInt KInt 1) Invalid
       = Ret (False, newComparator)"
  using C9_absent_operands [of 0 Map.empty "''*int''" newComparator "VInt KInt 1" Invalid "VInt KInt 1" Invalid newComparator]
  by (simp add: drillDownBoth_concrete Kind_def del: drillDown.simps areObjectsEquivalent.simps)


text \<open>
  C9 as stated fails when a drill-down meets a registered pointer: the second fields of
  the two structs are a pointer seen before (left) and nil (right); exactly one side is
  invalid after the drill-down, and the pair counts as equivalent, and so do the structs.
\<close>

theorem C9_one_side_absent_counterexample:
  "drillDownBoth (Suc (Suc 0)) sharedHeap afterFirst (VPtr ''*int'' 1) (VPtr ''*int'' 0)
     = Ret (VPtr ''*int'' 1, Invalid, True, \<lparr>aFinder = {(''*int'', 1)}, bFinder = {(''*int'', 0), (''*int'', 2)}\<rparr>)
   \<and> IsEquivalent (Suc (Suc (Suc 0))) sharedHeap
        (VStruct ''S'' [VPtr ''*int'' 1, VPtr ''*int'' 1])
        (VStruct ''S'' [VPtr ''*int'' 2, VPtr ''*int'' 0]) = Some True"
  by (simp add: IsEquivalent_def IsEquivalent_body_def newComparator_def drillDownBoth_def
        sharedHeap_def afterFirst_def RegisterPointer_def identity_def valElem_def Kind_def
        areStructsEquivalent_switch_def valNumField_def valField_def upt_rec
        areObjectsEquivalent_switch_def isEquivalentToInt_def insert_commute)


section \<open>Complex numbers\<close>

text \<open>
  C10. A complex number is not equivalent to any signed, unsigned, floating or
  arbitrary-precision number, in either order, whatever its components.
\<close>

theorem C10_complex_against_numbers:
  "IsEquivalent (Suc n) h (VComplex k re im) (VInt ki i) = Some False
   \<and> IsEquivalent (Suc n) h (VComplex k re im) (VUint ku u) = Some False
   \<and> IsEquivalent (Suc n) h (VComplex k re im) (VFloat kf f) = Some False
   \<and> IsEquivalent (Suc n) h (VComplex k re im) (VBigInt x) = Some False
   \<and> IsEquivalent (Suc n) h (VComplex k re im) (VBigFloat p s m) = Some False
   \<and> IsEquivalent (Suc n) h (VInt ki i) (VComplex k re im) = Some False
   \<and> IsEquivalent (Suc n) h (VUint ku u) (VComplex k re im) = Some False
   \<and> IsEquivalent (Suc n) h (VFloat kf f) (VComplex k re im) = Some False
   \<and> IsEquivalent (Suc n) h (VBigInt x) (VComplex k re im) = Some False
   \<and> IsEquivalent (Suc n) h (VBigFloat p s m) (VComplex k re im) = Some False"
  by (simp add: IsEquivalent_def IsEquivalent_body_def drillDownBoth_concrete Kind_def
        areObjectsEquivalent_switch_def valComplex_def isEquivalentToInt_def isEquivalentToUint_def
        isEquivalentToFloat_def areStructsEquivalent_switch_def isEquivalentToBigInt_def
        isEquivalentToBigFloat_def numericToString_def bigInt_String_not_N bigFloatToString_not_N
        del: drillDown.simps)



end
